theory Spec2Isabelle
  imports Complex_Main "HOL-Library.Finite_Map"
begin

section \<open>Values exchanged with the upstream API\<close>

text \<open>
  The gateway (\<^verbatim>\<open>githubmcp.py\<close>) moves Python values that came out of, or go into,
  a JSON codec. A Python \<^verbatim>\<open>dict\<close> with string keys is a finite map, a \<^verbatim>\<open>list\<close> a list,
  \<^verbatim>\<open>None\<close> is \<open>JNull\<close>. A Python float is a finite number, an infinity or a NaN (the
  decoder of the HTTP library accepts the literals \<^verbatim>\<open>Infinity\<close> and \<^verbatim>\<open>NaN\<close>).
\<close>

datatype pyfloat = FFinite rat | FInf | FNegInf | FNaN

datatype json =
    JNull
  | JBool bool
  | JInt int
  | JFloat pyfloat
  | JStr string
  | JArr "json list"
  | JObj "(string, json) fmap"

text \<open>
  Truth value testing, as Python's \<^verbatim>\<open>if x\<close> and \<^verbatim>\<open>not x\<close> do it: \<^verbatim>\<open>None\<close>, \<^verbatim>\<open>False\<close>,
  zero, and the empty string, list and dict are false; everything else is true (a NaN
  too, since it differs from zero).
\<close>

fun truthy :: "json \<Rightarrow> bool" where
  "truthy JNull = False"
| "truthy (JBool b) = b"
| "truthy (JInt i) = (i \<noteq> 0)"
| "truthy (JFloat f) = (f \<noteq> FFinite 0)"
| "truthy (JStr s) = (s \<noteq> [])"
| "truthy (JArr xs) = (xs \<noteq> [])"
| "truthy (JObj m) = (m \<noteq> fmempty)"

text \<open>
  The exceptions that leave the functions of the gateway. \<open>HTTPException\<close> is the
  framework's exception with its \<^verbatim>\<open>status_code\<close> and \<^verbatim>\<open>detail\<close>; the detail is a string
  (\<open>JStr\<close>) or a decoded body. \<open>AttributeError\<close> is what \<^verbatim>\<open>x.get(...)\<close> raises when
  \<^verbatim>\<open>x\<close> is not a dict. \<open>RequestException\<close> stands for every exception of the HTTP
  client when no response arrives (connection refused, time-out, ...). \<open>RecursionError\<close>
  is what the JSON decoder raises on a body nested deeper than the interpreter allows,
  and \<open>ValueError\<close> what \<^verbatim>\<open>http.HTTPStatus(n)\<close> raises for a number that is no member of
  it.
\<close>

datatype exn =
    HTTPException int json
  | AttributeError
  | RequestException
  | RecursionError
  | ValueError

text \<open>
  The members of \<^verbatim>\<open>http.HTTPStatus\<close> with their phrases, as Python 3.11 has them. The
  wording of a few phrases differs between Python versions; the facts below read the
  table at 404 and at 499 only.
\<close>

definition HTTPStatus_phrase :: "int \<Rightarrow> string option" where
  "HTTPStatus_phrase = map_of
     [(100, ''Continue''), (101, ''Switching Protocols''), (102, ''Processing''),
      (103, ''Early Hints''), (200, ''OK''), (201, ''Created''), (202, ''Accepted''),
      (203, ''Non-Authoritative Information''), (204, ''No Content''),
      (205, ''Reset Content''), (206, ''Partial Content''), (207, ''Multi-Status''),
      (208, ''Already Reported''), (226, ''IM Used''), (300, ''Multiple Choices''),
      (301, ''Moved Permanently''), (302, ''Found''), (303, ''See Other''),
      (304, ''Not Modified''), (305, ''Use Proxy''), (307, ''Temporary Redirect''),
      (308, ''Permanent Redirect''), (400, ''Bad Request''), (401, ''Unauthorized''),
      (402, ''Payment Required''), (403, ''Forbidden''), (404, ''Not Found''),
      (405, ''Method Not Allowed''), (406, ''Not Acceptable''),
      (407, ''Proxy Authentication Required''), (408, ''Request Timeout''),
      (409, ''Conflict''), (410, ''Gone''), (411, ''Length Required''),
      (412, ''Precondition Failed''), (413, ''Request Entity Too Large''),
      (414, ''Request-URI Too Long''), (415, ''Unsupported Media Type''),
      (416, ''Requested Range Not Satisfiable''), (417, ''Expectation Failed''),
      (418, ''I'' @ [CHR 0x27] @ ''m a Teapot''), (421, ''Misdirected Request''),
      (422, ''Unprocessable Entity''), (423, ''Locked''), (424, ''Failed Dependency''),
      (425, ''Too Early''), (426, ''Upgrade Required''), (428, ''Precondition Required''),
      (429, ''Too Many Requests''), (431, ''Request Header Fields Too Large''),
      (451, ''Unavailable For Legal Reasons''), (500, ''Internal Server Error''),
      (501, ''Not Implemented''), (502, ''Bad Gateway''), (503, ''Service Unavailable''),
      (504, ''Gateway Timeout''), (505, ''HTTP Version Not Supported''),
      (506, ''Variant Also Negotiates''), (507, ''Insufficient Storage''),
      (508, ''Loop Detected''), (510, ''Not Extended''),
      (511, ''Network Authentication Required'')]"

text \<open>
  \<^verbatim>\<open>raise HTTPException(status_code=n, detail=d)\<close>: the constructor keeps every detail but
  \<^verbatim>\<open>None\<close>, which it replaces by the phrase of \<^verbatim>\<open>http.HTTPStatus(n)\<close>; when \<open>n\<close> is no
  member, that lookup raises and the \<open>ValueError\<close> leaves in place of the
  \<open>HTTPException\<close>. A detail that is a string literal, as at the two other \<^verbatim>\<open>raise\<close>
  statements of the source, is kept.
\<close>

definition new_HTTPException :: "int \<Rightarrow> json \<Rightarrow> exn" where
  "new_HTTPException n d =
     (if d = JNull then
        (case HTTPStatus_phrase n of
           Some phrase \<Rightarrow> HTTPException n (JStr phrase)
         | None \<Rightarrow> ValueError)
      else HTTPException n d)"

section \<open>Text operations of the credential resolver\<close>

text \<open>
  The value of an inbound header reaches the handler decoded as Latin-1, one character
  per byte, so a header value is a \<open>string\<close> of HOL (characters \<open>0..255\<close>).

  \<open>isspace\<close> is the whitespace test that \<^verbatim>\<open>str.split()\<close> without a separator uses,
  restricted to the code points below 256: TAB, LF, VT, FF, CR, the separators
  \<open>0x1C..0x1F\<close>, the space, NEL (\<open>0x85\<close>) and the no-break space (\<open>0xA0\<close>).
\<close>

definition isspace :: "char \<Rightarrow> bool" where
  "isspace c = ((of_char c :: nat) \<in> {9, 10, 11, 12, 13, 28, 29, 30, 31, 32, 133, 160})"

text \<open>
  \<^verbatim>\<open>s.split()\<close>: the maximal runs of non-whitespace characters, in order; leading,
  trailing and repeated whitespace produces no empty token. \<open>split_from cur s\<close> is the
  scan with the token read so far in \<open>cur\<close>.
\<close>

fun split_from :: "string \<Rightarrow> string \<Rightarrow> string list" where
  "split_from cur [] = (if cur = [] then [] else [cur])"
| "split_from cur (c # cs) =
     (if isspace c then (if cur = [] then split_from [] cs else cur # split_from [] cs)
      else split_from (cur @ [c]) cs)"

definition split :: "string \<Rightarrow> string list" where
  "split s = split_from [] s"

text \<open>
  \<^verbatim>\<open>s.lower()\<close> below code point 256: the letters \<open>A..Z\<close> and the accented capitals
  \<open>0xC0..0xDE\<close> (the multiplication sign \<open>0xD7\<close> apart) move up by 32, every other
  character stays.
\<close>

definition lower_char :: "char \<Rightarrow> char" where
  "lower_char c =
     (let n = (of_char c :: nat)
      in if (65 \<le> n \<and> n \<le> 90) \<or> (192 \<le> n \<and> n \<le> 222 \<and> n \<noteq> 215)
         then char_of (n + 32) else c)"

definition lower :: "string \<Rightarrow> string" where
  "lower s = map lower_char s"

section \<open>Credential resolution\<close>

text \<open>
  \<^verbatim>\<open>get_token(authorization)\<close> with the process environment made a parameter:
  \<open>authorization\<close> is the header value (\<open>None\<close> when the request has no such header),
  \<open>environ\<close> is \<^verbatim>\<open>os.environ\<close>, whose \<^verbatim>\<open>get\<close> is the lookup. \<^verbatim>\<open>if authorization\<close> and
  \<^verbatim>\<open>not token\<close> test an optional string: \<^verbatim>\<open>None\<close> and the empty string are false.
\<close>

definition get_token :: "string option \<Rightarrow> (string, string) fmap \<Rightarrow> exn + string" where
  "get_token authorization environ =
     (if authorization \<noteq> None \<and> the authorization \<noteq> [] then
        (let parts = split (the authorization)
         in if length parts = 2 \<and> lower (parts ! 0) = ''bearer'' then Inr (parts ! 1)
            else Inr (the authorization))
      else
        (let token = fmlookup environ ''GITHUB_TOKEN''
         in if token = None \<or> the token = [] then
              Inl (HTTPException 401
                (JStr ''GitHub token not provided via Authorization header or GITHUB_TOKEN env var''))
            else Inr (the token)))"

section \<open>The upstream caller\<close>

text \<open>
  What \<^verbatim>\<open>requests.request(method, url, headers=..., json=..., params=...)\<close> sends, and
  what comes back. The gateway reads a response through \<^verbatim>\<open>resp.status_code\<close>,
  \<^verbatim>\<open>resp.json()\<close> and, only after \<^verbatim>\<open>resp.json()\<close> has raised, \<^verbatim>\<open>resp.text\<close>. So the content
  of a response is one of three:
  \<^item> \<open>JsonBody v\<close>, a body that \<^verbatim>\<open>resp.json()\<close> decodes to \<open>v\<close>;
  \<^item> \<open>TextBody s\<close>, a body with \<^verbatim>\<open>resp.text\<close> \<open>s\<close> that the decoder rejects: \<^verbatim>\<open>resp.json()\<close>
    raises its decode error, which is a \<^verbatim>\<open>ValueError\<close> (an empty body, plain text);
  \<^item> \<open>NestedBody s\<close>, a body with \<^verbatim>\<open>resp.text\<close> \<open>s\<close> nested so deep (two thousand \<^verbatim>\<open>[\<close>, say)
    that \<^verbatim>\<open>resp.json()\<close> raises \<^verbatim>\<open>RecursionError\<close>, which is no \<^verbatim>\<open>ValueError\<close>.
  The handler \<^verbatim>\<open>except Exception\<close> of the error branch catches both exceptions, the
  handler \<^verbatim>\<open>except ValueError\<close> of the success branch only the first.
\<close>

datatype content = JsonBody json | TextBody string | NestedBody string

record request =
  http_method :: string
  url :: string
  headers :: "(string \<times> string) list"
  json :: "json option"
  params :: "(string \<times> string) list option"

record response =
  status_code :: int
  content :: content

text \<open>
  The upstream service answers a request depending on the requests it has seen before;
  \<open>None\<close> when the client raises instead of returning a response.
\<close>

type_synonym upstream = "request list \<Rightarrow> request \<Rightarrow> response option"

text \<open>
  The effects of the gateway: the lines printed to the console and the upstream calls
  made, oldest first.
\<close>

record world =
  stdout :: "string list"
  calls :: "request list"

definition GITHUB_API_BASE :: string where
  "GITHUB_API_BASE = ''https://api.github.com''"

definition gh_request ::
  "upstream \<Rightarrow> string \<Rightarrow> string \<Rightarrow> string \<Rightarrow> json option \<Rightarrow> (string \<times> string) list option
     \<Rightarrow> world \<Rightarrow> (exn + json) \<times> world" where
  "gh_request up meth path token js ps w =
     (let w1 = w\<lparr>stdout := stdout w @ [token]\<rparr>;
          req = \<lparr>http_method = meth,
                 url = GITHUB_API_BASE @ path,
                 headers = [(''Authorization'', ''Bearer '' @ token),
                            (''Accept'', ''application/vnd.github.v3+json'')],
                 json = js,
                 params = ps\<rparr>;
          w2 = w1\<lparr>calls := calls w1 @ [req]\<rparr>
      in case up (calls w1) req of
           None \<Rightarrow> (Inl RequestException, w2)
         | Some resp \<Rightarrow>
             if status_code resp \<ge> 400 then
               (Inl (new_HTTPException (status_code resp)
                  (case content resp of
                     JsonBody d \<Rightarrow> d
                   | TextBody s \<Rightarrow> JObj (fmap_of_list [(''message'', JStr s)])
                   | NestedBody s \<Rightarrow> JObj (fmap_of_list [(''message'', JStr s)]))), w2)
             else
               (case content resp of
                  JsonBody v \<Rightarrow> (Inr v, w2)
                | TextBody s \<Rightarrow> (Inr (JObj (fmap_of_list [(''status'', JStr ''ok'')])), w2)
                | NestedBody s \<Rightarrow> (Inl RecursionError, w2)))"

section \<open>Request bodies accepted from the caller\<close>

text \<open>
  The four payload classes with their fields. An \<^verbatim>\<open>Optional[str]\<close> field is a
  \<open>string option\<close>. The \<open>new_\<close> functions build a payload the way the class does when
  the caller's JSON object gives only some of the fields: an argument is \<open>None\<close> when
  the field is not given (the declared default applies) and \<open>Some v\<close> when it is given
  as \<open>v\<close>. The empty object \<^verbatim>\<open>{}\<close> gives no field at all.
\<close>

record CreateBranchPayload =
  new_branch :: string
  base_branch :: "string option"

definition new_CreateBranchPayload :: "string \<Rightarrow> string option option \<Rightarrow> CreateBranchPayload" where
  "new_CreateBranchPayload nb bb =
     \<lparr>new_branch = nb,
      base_branch = (case bb of None \<Rightarrow> Some ''main'' | Some v \<Rightarrow> v)\<rparr>"

record CreatePrPayload =
  head :: string
  base :: string
  title :: string
  body :: "string option"
  draft :: "bool option"

definition new_CreatePrPayload ::
  "string \<Rightarrow> string option \<Rightarrow> string \<Rightarrow> string option option \<Rightarrow> bool option option
     \<Rightarrow> CreatePrPayload" where
  "new_CreatePrPayload h b t bd d =
     \<lparr>head = h,
      base = (case b of None \<Rightarrow> ''main'' | Some v \<Rightarrow> v),
      title = t,
      body = (case bd of None \<Rightarrow> None | Some v \<Rightarrow> v),
      draft = (case d of None \<Rightarrow> Some False | Some v \<Rightarrow> v)\<rparr>"

record ReviewPrPayload =
  review_body :: "string option"
  event :: "string option"

definition new_ReviewPrPayload :: "string option option \<Rightarrow> string option option \<Rightarrow> ReviewPrPayload" where
  "new_ReviewPrPayload bd ev =
     \<lparr>review_body = (case bd of None \<Rightarrow> None | Some v \<Rightarrow> v),
      event = (case ev of None \<Rightarrow> Some ''COMMENT'' | Some v \<Rightarrow> v)\<rparr>"

record MergePrPayload =
  commit_title :: "string option"
  commit_message :: "string option"
  merge_method :: "string option"

definition new_MergePrPayload ::
  "string option option \<Rightarrow> string option option \<Rightarrow> string option option \<Rightarrow> MergePrPayload" where
  "new_MergePrPayload ct cm mm =
     \<lparr>commit_title = (case ct of None \<Rightarrow> None | Some v \<Rightarrow> v),
      commit_message = (case cm of None \<Rightarrow> None | Some v \<Rightarrow> v),
      merge_method = (case mm of None \<Rightarrow> Some ''merge'' | Some v \<Rightarrow> v)\<rparr>"

section \<open>Python operations the handlers use\<close>

text \<open>An optional string or boolean as the JSON encoder writes it: \<^verbatim>\<open>None\<close> is \<^verbatim>\<open>null\<close>.\<close>

definition json_of_str :: "string option \<Rightarrow> json" where
  "json_of_str v = (case v of None \<Rightarrow> JNull | Some s \<Rightarrow> JStr s)"

definition json_of_bool :: "bool option \<Rightarrow> json" where
  "json_of_bool v = (case v of None \<Rightarrow> JNull | Some b \<Rightarrow> JBool b)"

text \<open>
  An optional string inside an f-string: \<^verbatim>\<open>f"{None}"\<close> is the text \<^verbatim>\<open>None\<close>.
\<close>

definition format_str :: "string option \<Rightarrow> string" where
  "format_str v = (case v of None \<Rightarrow> ''None'' | Some s \<Rightarrow> s)"

text \<open>An integer inside an f-string: its decimal digits, with a minus sign when negative.\<close>

function str_nat :: "nat \<Rightarrow> string" where
  "str_nat n = (if n < 10 then [char_of (48 + n)] else str_nat (n div 10) @ [char_of (48 + n mod 10)])"
  by pat_completeness auto
termination
  by (relation "measure id") auto

definition str_int :: "int \<Rightarrow> string" where
  "str_int i = (if i < 0 then CHR ''-'' # str_nat (nat (- i)) else str_nat (nat i))"

text \<open>
  \<^verbatim>\<open>x.get(key, default)\<close>: a dict answers with the value at the key, or with the default
  when the key is missing; any other value has no \<^verbatim>\<open>get\<close> and raises.
\<close>

fun dict_get :: "json \<Rightarrow> string \<Rightarrow> json \<Rightarrow> exn + json" where
  "dict_get (JObj m) k d = Inr (case fmlookup m k of Some v \<Rightarrow> v | None \<Rightarrow> d)"
| "dict_get _ k d = Inl AttributeError"

section \<open>Endpoint handlers\<close>

text \<open>
  Each handler receives the path and query parameters, the parsed payload and the
  token that \<open>get_token\<close> resolved, and goes through \<open>gh_request\<close> for every upstream
  call.
\<close>

definition list_branches :: "upstream \<Rightarrow> string \<Rightarrow> string \<Rightarrow> string \<Rightarrow> world \<Rightarrow> (exn + json) \<times> world" where
  "list_branches up owner repo token w =
     (let path = ''/repos/'' @ owner @ ''/'' @ repo @ ''/branches''
      in gh_request up ''GET'' path token None None w)"

definition create_branch ::
  "upstream \<Rightarrow> string \<Rightarrow> string \<Rightarrow> CreateBranchPayload \<Rightarrow> string \<Rightarrow> world \<Rightarrow> (exn + json) \<times> world" where
  "create_branch up owner repo payload token w =
     (let base_path = ''/repos/'' @ owner @ ''/'' @ repo @ ''/git/ref/heads/''
                        @ format_str (base_branch payload)
      in case gh_request up ''GET'' base_path token None None w of
           (Inl e, w1) \<Rightarrow> (Inl e, w1)
         | (Inr base_ref, w1) \<Rightarrow>
             (case dict_get base_ref ''object'' (JObj fmempty) of
                Inl e \<Rightarrow> (Inl e, w1)
              | Inr obj \<Rightarrow>
                  (case dict_get obj ''sha'' JNull of
                     Inl e \<Rightarrow> (Inl e, w1)
                   | Inr base_sha \<Rightarrow>
                       if \<not> truthy base_sha then
                         (Inl (HTTPException 500 (JStr ''Could not resolve base branch SHA'')), w1)
                       else
                         (let ref_path = ''/repos/'' @ owner @ ''/'' @ repo @ ''/git/refs'';
                              new_ref = JObj (fmap_of_list
                                [(''ref'', JStr (''refs/heads/'' @ new_branch payload)),
                                 (''sha'', base_sha)])
                          in gh_request up ''POST'' ref_path token (Some new_ref) None w1))))"

definition list_prs :: "upstream \<Rightarrow> string \<Rightarrow> string \<Rightarrow> string \<Rightarrow> string \<Rightarrow> world \<Rightarrow> (exn + json) \<times> world" where
  "list_prs up owner repo state token w =
     (let path = ''/repos/'' @ owner @ ''/'' @ repo @ ''/pulls''
      in gh_request up ''GET'' path token None (Some [(''state'', state)]) w)"

definition create_pr ::
  "upstream \<Rightarrow> string \<Rightarrow> string \<Rightarrow> CreatePrPayload \<Rightarrow> string \<Rightarrow> world \<Rightarrow> (exn + json) \<times> world" where
  "create_pr up owner repo payload token w =
     (let path = ''/repos/'' @ owner @ ''/'' @ repo @ ''/pulls'';
          bd = JObj (fmap_of_list
                 [(''title'', JStr (title payload)),
                  (''head'', JStr (head payload)),
                  (''base'', JStr (base payload)),
                  (''body'', json_of_str (body payload)),
                  (''draft'', json_of_bool (draft payload))])
      in gh_request up ''POST'' path token (Some bd) None w)"

definition get_pr :: "upstream \<Rightarrow> string \<Rightarrow> string \<Rightarrow> int \<Rightarrow> string \<Rightarrow> world \<Rightarrow> (exn + json) \<times> world" where
  "get_pr up owner repo pr_number token w =
     (let path = ''/repos/'' @ owner @ ''/'' @ repo @ ''/pulls/'' @ str_int pr_number
      in gh_request up ''GET'' path token None None w)"

definition review_pr ::
  "upstream \<Rightarrow> string \<Rightarrow> string \<Rightarrow> int \<Rightarrow> ReviewPrPayload \<Rightarrow> string \<Rightarrow> world \<Rightarrow> (exn + json) \<times> world" where
  "review_pr up owner repo pr_number payload token w =
     (let path = ''/repos/'' @ owner @ ''/'' @ repo @ ''/pulls/'' @ str_int pr_number @ ''/reviews'';
          bd = JObj (fmap_of_list
                 [(''body'', JStr (case review_body payload of
                                    None \<Rightarrow> []
                                  | Some s \<Rightarrow> if s \<noteq> [] then s else [])),
                  (''event'', json_of_str (event payload))])
      in gh_request up ''POST'' path token (Some bd) None w)"

definition merge_pr ::
  "upstream \<Rightarrow> string \<Rightarrow> string \<Rightarrow> int \<Rightarrow> MergePrPayload \<Rightarrow> string \<Rightarrow> world \<Rightarrow> (exn + json) \<times> world" where
  "merge_pr up owner repo pr_number payload token w =
     (let path = ''/repos/'' @ owner @ ''/'' @ repo @ ''/pulls/'' @ str_int pr_number @ ''/merge'';
          bd = JObj (fmap_of_list
                 [(''commit_title'', json_of_str (commit_title payload)),
                  (''commit_message'', json_of_str (commit_message payload)),
                  (''merge_method'', json_of_str (merge_method payload))])
      in gh_request up ''PUT'' path token (Some bd) None w)"

definition get_contents ::
  "upstream \<Rightarrow> string \<Rightarrow> string \<Rightarrow> string \<Rightarrow> string option \<Rightarrow> string \<Rightarrow> world \<Rightarrow> (exn + json) \<times> world" where
  "get_contents up owner repo path ref token w =
     (let api_path = ''/repos/'' @ owner @ ''/'' @ repo @ ''/contents/'' @ path;
          ps = (case ref of
                  None \<Rightarrow> None
                | Some r \<Rightarrow> if r \<noteq> [] then Some [(''ref'', r)] else None)
      in gh_request up ''GET'' api_path token None ps w)"

section \<open>The specification's vocabulary\<close>

text \<open>
  The upstream call as section 4.2 of the specification words it: the fixed base URL
  followed by the path, the two headers, and the method, JSON body and query
  parameters as given.
\<close>

definition spec_call ::
  "string \<Rightarrow> string \<Rightarrow> string \<Rightarrow> json option \<Rightarrow> (string \<times> string) list option \<Rightarrow> request" where
  "spec_call meth path token js ps =
     \<lparr>http_method = meth,
      url = ''https://api.github.com'' @ path,
      headers = [(''Authorization'', ''Bearer '' @ token),
                 (''Accept'', ''application/vnd.github.v3+json'')],
      json = js,
      params = ps\<rparr>"

text \<open>
  The two upstream calls of branch creation as the handler inventory (section 4.3)
  words them: \<^verbatim>\<open>GET /repos/{owner}/{repo}/git/ref/heads/{base_branch}\<close>, then
  \<^verbatim>\<open>POST /repos/{owner}/{repo}/git/refs\<close> with \<^verbatim>\<open>{ref: "refs/heads/{new_branch}", sha}\<close>.
\<close>

definition heads_ref_path :: "string \<Rightarrow> string \<Rightarrow> string \<Rightarrow> string" where
  "heads_ref_path owner repo branch =
     ''/repos/'' @ owner @ ''/'' @ repo @ ''/git/ref/heads/'' @ branch"

definition git_refs_path :: "string \<Rightarrow> string \<Rightarrow> string" where
  "git_refs_path owner repo = ''/repos/'' @ owner @ ''/'' @ repo @ ''/git/refs''"

definition new_ref_body :: "string \<Rightarrow> json \<Rightarrow> json" where
  "new_ref_body branch sha =
     JObj (fmap_of_list [(''ref'', JStr (''refs/heads/'' @ branch)), (''sha'', sha)])"

definition get_ref_call :: "string \<Rightarrow> string \<Rightarrow> string \<Rightarrow> string \<Rightarrow> request" where
  "get_ref_call owner repo branch token =
     spec_call ''GET'' (heads_ref_path owner repo branch) token None None"

definition post_ref_call :: "string \<Rightarrow> string \<Rightarrow> string \<Rightarrow> json \<Rightarrow> string \<Rightarrow> request" where
  "post_ref_call owner repo branch sha token =
     spec_call ''POST'' (git_refs_path owner repo) token (Some (new_ref_body branch sha)) None"

text \<open>The error of a base branch whose SHA cannot be resolved (section 7).\<close>

definition no_base_sha :: exn where
  "no_base_sha = HTTPException 500 (JStr ''Could not resolve base branch SHA'')"

text \<open>
  A member of a JSON object, and the path \<^verbatim>\<open>object.sha\<close> of a body: the member \<^verbatim>\<open>sha\<close> of
  the member \<^verbatim>\<open>object\<close>. A value that is not an object has no member.
\<close>

definition jfield :: "json \<Rightarrow> string \<Rightarrow> json option" where
  "jfield b k = (case b of JObj m \<Rightarrow> fmlookup m k | _ \<Rightarrow> None)"

definition object_sha :: "json \<Rightarrow> json option" where
  "object_sha b = (case jfield b ''object'' of None \<Rightarrow> None | Some ob \<Rightarrow> jfield ob ''sha'')"

text \<open>The body \<^verbatim>\<open>{object: {sha: S}}\<close>.\<close>

definition ref_body :: "json \<Rightarrow> json" where
  "ref_body S = JObj (fmap_of_list [(''object'', JObj (fmap_of_list [(''sha'', S)]))])"

fun is_dict :: "json \<Rightarrow> bool" where
  "is_dict (JObj m) = True"
| "is_dict _ = False"

text \<open>
  A body shaped like a reference of the upstream API, as far as the handler reads it:
  a JSON object whose member \<^verbatim>\<open>object\<close>, when it has one, is a JSON object.
\<close>

definition ref_shaped :: "json \<Rightarrow> bool" where
  "ref_shaped b = (is_dict b \<and> (case jfield b ''object'' of None \<Rightarrow> True | Some ob \<Rightarrow> is_dict ob))"

text \<open>
  A stand-in for the upstream service that answers the \<open>n\<close>-th call with the \<open>n\<close>-th
  of a list of prepared responses, and lets the client raise once the list is used up.
  \<open>w0\<close> is the state before any effect.
\<close>

definition canned :: "response list \<Rightarrow> upstream" where
  "canned rs h req = (if length h < length rs then Some (rs ! length h) else None)"

definition w0 :: world where
  "w0 = \<lparr>stdout = [], calls = []\<rparr>"

section \<open>Facts about the text operations\<close>

lemma split_empty: "split [] = []"
  by (simp add: split_def)

lemma split_from_token:
  "\<forall>c \<in> set s. \<not> isspace c \<Longrightarrow> cur @ s \<noteq> [] \<Longrightarrow> split_from cur s = [cur @ s]"
  by (induction s arbitrary: cur) auto

lemma split_Bearer_token:
  assumes "X \<noteq> []" and "\<forall>c \<in> set X. \<not> isspace c"
  shows "split (''Bearer '' @ X) = [''Bearer'', X]"
proof -
  have "split_from [] X = [X]"
    using split_from_token [of X "[]"] assms by simp
  then show ?thesis
    by (simp add: split_def isspace_def)
qed

lemma lower_Bearer: "lower ''Bearer'' = ''bearer''"
  by code_simp

lemma get_token_Bearer_X:
  assumes "X \<noteq> []" and "\<forall>c \<in> set X. \<not> isspace c"
  shows "get_token (Some (''Bearer '' @ X)) environ = Inr X"
proof -
  define h where "h = ''Bearer '' @ X"
  have parts: "split h = [''Bearer'', X]"
    unfolding h_def by (rule split_Bearer_token [OF assms])
  have "h \<noteq> []"
    by (simp add: h_def)
  then have "get_token (Some h) environ = Inr X"
    by (simp add: get_token_def parts lower_Bearer)
  then show ?thesis
    by (simp only: h_def)
qed

lemma get_token_empty_header:
  "get_token (Some []) environ = get_token None environ"
  by (simp add: get_token_def)

lemma str_int_42: "str_int 42 = ''42''"
  by code_simp

section \<open>Facts about the upstream caller\<close>

lemma gh_request_calls:
  "calls (snd (gh_request up m p t js ps w)) = calls w @ [spec_call m p t js ps]"
  by (simp add: gh_request_def spec_call_def GITHUB_API_BASE_def Let_def
        split: option.splits content.splits)

lemma gh_request_stdout:
  "stdout (snd (gh_request up m p t js ps w)) = stdout w @ [t]"
  by (simp add: gh_request_def Let_def split: option.splits content.splits)

lemma new_HTTPException_detail: "d \<noteq> JNull \<Longrightarrow> new_HTTPException n d = HTTPException n d"
  by (simp add: new_HTTPException_def)

lemma ref_body_not_null: "ref_body S \<noteq> JNull"
  by (simp add: ref_body_def)


lemma HTTPStatus_phrase_499: "HTTPStatus_phrase 499 = None"
  by (simp add: HTTPStatus_phrase_def)

lemma gh_request_sees:
  "up (calls w) (spec_call m p t js ps) = Some resp \<Longrightarrow>
   fst (gh_request up m p t js ps w) =
     (if status_code resp \<ge> 400
      then Inl (new_HTTPException (status_code resp)
             (case content resp of
                JsonBody d \<Rightarrow> d
              | TextBody s \<Rightarrow> JObj (fmap_of_list [(''message'', JStr s)])
              | NestedBody s \<Rightarrow> JObj (fmap_of_list [(''message'', JStr s)])))
      else (case content resp of
              JsonBody v \<Rightarrow> Inr v
            | TextBody s \<Rightarrow> Inr (JObj (fmap_of_list [(''status'', JStr ''ok'')]))
            | NestedBody s \<Rightarrow> Inl RecursionError))"
  by (simp add: gh_request_def spec_call_def GITHUB_API_BASE_def Let_def split: content.splits)

lemma gh_request_raises:
  "up (calls w) (spec_call m p t js ps) = None \<Longrightarrow>
   fst (gh_request up m p t js ps w) = Inl RequestException"
  by (simp add: gh_request_def spec_call_def GITHUB_API_BASE_def Let_def)

lemma canned_first: "canned (r # rs) (calls w0) req = Some r"
  by (simp add: canned_def w0_def)

section \<open>Facts about branch creation\<close>

lemma step_raises:
  "fst p = Inl e \<Longrightarrow> (case p of (Inl e, w1) \<Rightarrow> (Inl e, w1) | (Inr v, w1) \<Rightarrow> g v w1) = p"
  by (cases p) auto

lemma step_returns:
  "fst p = Inr v \<Longrightarrow> (case p of (Inl e, w1) \<Rightarrow> f e w1 | (Inr v, w1) \<Rightarrow> g v w1) = g v (snd p)"
  by (cases p) auto

text \<open>When the first step raises, the handler ends with that step's exception and state.\<close>

lemma create_branch_step1_fails:
  assumes "fst (gh_request up ''GET'' (heads_ref_path owner repo (format_str (base_branch payload)))
                  token None None w) = Inl e"
  shows "create_branch up owner repo payload token w =
           gh_request up ''GET'' (heads_ref_path owner repo (format_str (base_branch payload)))
             token None None w"
  unfolding create_branch_def Let_def heads_ref_path_def
  by (rule step_raises [OF assms [unfolded heads_ref_path_def]])

text \<open>When the first step returns \<open>base_ref\<close>, the handler goes on from the state it left.\<close>

lemma create_branch_step1_returns:
  assumes "fst (gh_request up ''GET'' (heads_ref_path owner repo (format_str (base_branch payload)))
                  token None None w) = Inr base_ref"
  shows "create_branch up owner repo payload token w =
     (case dict_get base_ref ''object'' (JObj fmempty) of
        Inl e \<Rightarrow> (Inl e, snd (gh_request up ''GET''
                    (heads_ref_path owner repo (format_str (base_branch payload))) token None None w))
      | Inr obj \<Rightarrow>
          (case dict_get obj ''sha'' JNull of
             Inl e \<Rightarrow> (Inl e, snd (gh_request up ''GET''
                    (heads_ref_path owner repo (format_str (base_branch payload))) token None None w))
           | Inr base_sha \<Rightarrow>
               if \<not> truthy base_sha then
                 (Inl no_base_sha, snd (gh_request up ''GET''
                    (heads_ref_path owner repo (format_str (base_branch payload))) token None None w))
               else
                 gh_request up ''POST'' (git_refs_path owner repo) token
                   (Some (new_ref_body (new_branch payload) base_sha)) None
                   (snd (gh_request up ''GET''
                    (heads_ref_path owner repo (format_str (base_branch payload))) token None None w))))"
  unfolding create_branch_def Let_def heads_ref_path_def git_refs_path_def new_ref_body_def no_base_sha_def
  by (rule step_returns [OF assms [unfolded heads_ref_path_def]])

lemma create_branch_upstream_error:
  assumes "up (calls w) (get_ref_call owner repo (format_str (base_branch payload)) token) = Some r"
    and "status_code r \<ge> 400"
    and "content r = JsonBody d"
    and "d \<noteq> JNull"
  shows "fst (create_branch up owner repo payload token w) = Inl (HTTPException (status_code r) d)"
    and "calls (snd (create_branch up owner repo payload token w)) =
           calls w @ [get_ref_call owner repo (format_str (base_branch payload)) token]"
proof -
  have s1: "fst (gh_request up ''GET'' (heads_ref_path owner repo (format_str (base_branch payload)))
                  token None None w) = Inl (HTTPException (status_code r) d)"
    using assms by (simp add: gh_request_sees get_ref_call_def new_HTTPException_detail)
  show "fst (create_branch up owner repo payload token w) = Inl (HTTPException (status_code r) d)"
    by (simp only: create_branch_step1_fails [OF s1] s1)
  show "calls (snd (create_branch up owner repo payload token w)) =
           calls w @ [get_ref_call owner repo (format_str (base_branch payload)) token]"
    by (simp only: create_branch_step1_fails [OF s1] gh_request_calls get_ref_call_def)
qed

lemma sha_of_body_present:
  "object_sha b = Some S \<Longrightarrow>
   \<exists>ob. dict_get b ''object'' (JObj fmempty) = Inr ob \<and> dict_get ob ''sha'' JNull = Inr S"
  by (auto simp: object_sha_def jfield_def split: json.splits option.splits)

lemma sha_of_body_absent:
  "ref_shaped b \<Longrightarrow> object_sha b = None \<Longrightarrow>
   \<exists>ob. dict_get b ''object'' (JObj fmempty) = Inr ob \<and> dict_get ob ''sha'' JNull = Inr JNull"
  by (cases b) (auto simp: ref_shaped_def object_sha_def jfield_def split: json.splits option.splits)

lemma sha_of_body_truthy:
  "dict_get b ''object'' (JObj fmempty) = Inr ob \<Longrightarrow> dict_get ob ''sha'' JNull = Inr S \<Longrightarrow>
   truthy S \<Longrightarrow> object_sha b = Some S"
  by (cases b; cases ob) (auto simp: object_sha_def jfield_def split: option.splits)

lemma sha_of_empty_object:
  "jfield b ''object'' = Some (JObj fmempty) \<Longrightarrow>
   dict_get b ''object'' (JObj fmempty) = Inr (JObj fmempty) \<and>
   dict_get (JObj fmempty) ''sha'' JNull = Inr JNull"
  by (cases b) (auto simp: jfield_def)

lemma object_sha_ref_body: "object_sha (ref_body S) = Some S"
  by (simp add: object_sha_def jfield_def ref_body_def)

lemma create_branch_without_sha:
  assumes "fst (gh_request up ''GET''
      (heads_ref_path owner repo (format_str (base_branch payload))) token None None w) = Inr base_ref"
    and "dict_get base_ref ''object'' (JObj fmempty) = Inr ob"
    and "dict_get ob ''sha'' JNull = Inr S"
    and "\<not> truthy S"
  shows "fst (create_branch up owner repo payload token w) = Inl no_base_sha
         \<and> calls (snd (create_branch up owner repo payload token w)) =
             calls w @ [get_ref_call owner repo (format_str (base_branch payload)) token]"
  using assms(2-4)
  by (simp add: create_branch_step1_returns [OF assms(1)] gh_request_calls get_ref_call_def)

text \<open>
  A body that is not a JSON object, or whose member \<^verbatim>\<open>object\<close> is not one, ends the
  handler with the \<open>AttributeError\<close> of \<^verbatim>\<open>get\<close>, after the first call only.
\<close>

lemma create_branch_unshaped_body:
  assumes "up (calls w) (get_ref_call owner repo (format_str (base_branch payload)) token) = Some r"
    and "status_code r < 400"
    and "content r = JsonBody b"
    and "\<not> ref_shaped b"
  shows "fst (create_branch up owner repo payload token w) = Inl AttributeError"
    and "calls (snd (create_branch up owner repo payload token w)) =
           calls w @ [get_ref_call owner repo (format_str (base_branch payload)) token]"
proof -
  have s1: "fst (gh_request up ''GET''
      (heads_ref_path owner repo (format_str (base_branch payload))) token None None w) = Inr b"
    using assms(1-3) by (simp add: gh_request_sees get_ref_call_def)
  have d: "dict_get b ''object'' (JObj fmempty) = Inl AttributeError
        \<or> (\<exists>ob. dict_get b ''object'' (JObj fmempty) = Inr ob \<and> dict_get ob ''sha'' JNull = Inl AttributeError)"
    using assms(4)
    by (cases b) (auto simp: ref_shaped_def jfield_def split: option.splits elim: is_dict.elims)
  then show "fst (create_branch up owner repo payload token w) = Inl AttributeError"
    by (auto simp: create_branch_step1_returns [OF s1])
  from d show "calls (snd (create_branch up owner repo payload token w)) =
           calls w @ [get_ref_call owner repo (format_str (base_branch payload)) token]"
    by (auto simp: create_branch_step1_returns [OF s1] gh_request_calls get_ref_call_def)
qed

section \<open>Credential resolution: claims C3 and C4\<close>

text \<open>
  Claim C3 says that a header value which splits on whitespace into exactly two tokens,
  the first equal to \<^verbatim>\<open>Bearer\<close> whatever its case, resolves to the second token; that
  every other non-empty header value resolves to itself; and that a request with no
  header resolves to the value of \<^verbatim>\<open>GITHUB_TOKEN\<close> when that variable is set. The last part
  fails when the variable is set to the empty string: \<^verbatim>\<open>not token\<close> holds for it
  and the resolver raises the 401.
\<close>

theorem get_token_empty_env_counterexample:
  "fmlookup (fmupd ''GITHUB_TOKEN'' [] fmempty) ''GITHUB_TOKEN'' = Some [] \<and>
   get_token None (fmupd ''GITHUB_TOKEN'' [] fmempty) =
     Inl (HTTPException 401
       (JStr ''GitHub token not provided via Authorization header or GITHUB_TOKEN env var''))"
  by (simp add: get_token_def)

text \<open>
  Claim C3, amended: the first two parts as the claim has them; a request with no header
  resolves to the value of \<^verbatim>\<open>GITHUB_TOKEN\<close> when that variable is set to a non-empty
  string.
\<close>

theorem get_token_resolution:
  "(length (split h1) = 2 \<and> lower (split h1 ! 0) = ''bearer''
      \<longrightarrow> get_token (Some h1) environ = Inr (split h1 ! 1)) \<and>
   (h2 \<noteq> [] \<and> \<not> (length (split h2) = 2 \<and> lower (split h2 ! 0) = ''bearer'')
      \<longrightarrow> get_token (Some h2) environ = Inr h2) \<and>
   (fmlookup environ ''GITHUB_TOKEN'' = Some t \<and> t \<noteq> [] \<longrightarrow> get_token None environ = Inr t)"
proof (intro conjI impI)
  assume two: "length (split h1) = 2 \<and> lower (split h1 ! 0) = ''bearer''"
  then have "h1 \<noteq> []"
    by (auto simp: split_empty)
  with two show "get_token (Some h1) environ = Inr (split h1 ! 1)"
    by (simp add: get_token_def)
next
  assume "h2 \<noteq> [] \<and> \<not> (length (split h2) = 2 \<and> lower (split h2 ! 0) = ''bearer'')"
  then show "get_token (Some h2) environ = Inr h2"
    by (auto simp add: get_token_def Let_def)
next
  assume "fmlookup environ ''GITHUB_TOKEN'' = Some t \<and> t \<noteq> []"
  then show "get_token None environ = Inr t"
    by (simp add: get_token_def)
qed

text \<open>
  The three parts at \<^verbatim>\<open>Authorization: Bearer abc123\<close>, at \<^verbatim>\<open>Authorization: ghp_raw\<close> and at
  a request without the header, in a process whose \<^verbatim>\<open>GITHUB_TOKEN\<close> is \<^verbatim>\<open>ghp_env\<close>.
\<close>

theorem get_token_resolution_witness:
  "get_token (Some ''Bearer abc123'') (fmupd ''GITHUB_TOKEN'' ''ghp_env'' fmempty) = Inr ''abc123'' \<and>
   get_token (Some ''ghp_raw'') (fmupd ''GITHUB_TOKEN'' ''ghp_env'' fmempty) = Inr ''ghp_raw'' \<and>
   get_token None (fmupd ''GITHUB_TOKEN'' ''ghp_env'' fmempty) = Inr ''ghp_env''"
  using get_token_resolution [where ?h1.0 = "''Bearer abc123''" and ?h2.0 = "''ghp_raw''"
      and environ = "fmupd ''GITHUB_TOKEN'' ''ghp_env'' fmempty" and t = "''ghp_env''"]
  by (simp add: split_def isspace_def lower_Bearer)

text \<open>
  Claim C4: a request with no \<^verbatim>\<open>Authorization\<close> header, in any process whose environment
  has no \<^verbatim>\<open>GITHUB_TOKEN\<close> variable, fails with the \<open>HTTPException\<close> of status 401 whose
  detail is one fixed string.
\<close>

theorem get_token_unauthorized:
  assumes "fmlookup environ ''GITHUB_TOKEN'' = None"
  shows "get_token None environ =
     Inl (HTTPException 401
       (JStr ''GitHub token not provided via Authorization header or GITHUB_TOKEN env var''))"
  using assms by (simp add: get_token_def)

text \<open>
  An environment with \<^verbatim>\<open>PATH\<close> and \<^verbatim>\<open>GH_TOKEN\<close> but no \<^verbatim>\<open>GITHUB_TOKEN\<close>: the resolver reads
  no other variable.
\<close>

theorem get_token_unauthorized_witness:
  "fmlookup (fmap_of_list [(''PATH'', ''/usr/bin''), (''GH_TOKEN'', ''ghp_other'')]) ''GITHUB_TOKEN''
     = None \<and>
   get_token None (fmap_of_list [(''PATH'', ''/usr/bin''), (''GH_TOKEN'', ''ghp_other'')]) =
     Inl (HTTPException 401
       (JStr ''GitHub token not provided via Authorization header or GITHUB_TOKEN env var''))"
proof -
  have h: "fmlookup (fmap_of_list [(''PATH'', ''/usr/bin''), (''GH_TOKEN'', ''ghp_other'')])
             ''GITHUB_TOKEN'' = None"
    by simp
  show ?thesis
    using h get_token_unauthorized [OF h] by simp
qed

section \<open>The upstream caller: claims C5 and C6\<close>


text \<open>
  With a status code that \<^verbatim>\<open>http.HTTPStatus\<close> does not list, the same body ends in the
  \<open>ValueError\<close> of the constructor, which carries no status code at all.
\<close>

lemma gh_request_null_detail_499:
  "fst (gh_request
     (canned [\<lparr>status_code = 499, content = JsonBody JNull\<rparr>])
     ''GET'' ''/repos/acme/widget/branches'' ''tok'' None None w0)
   = Inl ValueError"
proof -
  let ?r = "\<lparr>status_code = 499, content = JsonBody JNull\<rparr>"
  have "canned [?r] (calls w0) (spec_call ''GET'' ''/repos/acme/widget/branches'' ''tok'' None None)
          = Some ?r"
    by (rule canned_first)
  from gh_request_sees [where up = "canned [?r]" and w = w0 and resp = ?r, OF this]
  show ?thesis
    by (simp add: new_HTTPException_def HTTPStatus_phrase_499)
qed



text \<open>
  Claim C6 says that for every upstream response with a status code below 400
  \<open>gh_request\<close> returns \<^verbatim>\<open>{status: "ok"}\<close> rather than failing whenever the body is not valid
  JSON. A 200 whose body is two thousand \<^verbatim>\<open>[\<close> is not valid JSON, and \<open>gh_request\<close> fails on
  it: the decoder raises \<^verbatim>\<open>RecursionError\<close>, which \<^verbatim>\<open>except ValueError\<close> lets through.
\<close>

theorem gh_request_nested_body_counterexample:
  "fst (gh_request
     (canned [\<lparr>status_code = 200, content = NestedBody (replicate 2000 CHR ''['')\<rparr>])
     ''GET'' ''/repos/acme/widget/branches'' ''tok'' None None w0)
   = Inl RecursionError"
proof -
  let ?r = "\<lparr>status_code = 200, content = NestedBody (replicate 2000 CHR ''['')\<rparr>"
  have "canned [?r] (calls w0) (spec_call ''GET'' ''/repos/acme/widget/branches'' ''tok'' None None)
          = Some ?r"
    by (rule canned_first)
  from gh_request_sees [where up = "canned [?r]" and w = w0 and resp = ?r, OF this]
  show ?thesis
    by simp
qed

text \<open>
  Claim C6, amended: when the upstream answers with a status code below 400,
  \<open>gh_request\<close> returns the decoded body when the body decodes as JSON; when the decoder
  rejects the body with its decode error, a \<^verbatim>\<open>ValueError\<close> (an empty body, say), it returns
  the object \<^verbatim>\<open>{status: "ok"}\<close> and does not fail.
\<close>

theorem gh_request_success:
  assumes "up (calls w) (spec_call m p t js ps) = Some resp"
    and "status_code resp < 400"
  shows "(content resp = JsonBody v \<longrightarrow> fst (gh_request up m p t js ps w) = Inr v)
       \<and> (content resp = TextBody s \<longrightarrow>
            fst (gh_request up m p t js ps w) = Inr (JObj (fmap_of_list [(''status'', JStr ''ok'')])))"
  using assms by (simp add: gh_request_sees)

text \<open>A 200 with the body \<^verbatim>\<open>[]\<close>, and a 204 with an empty body.\<close>

theorem gh_request_success_witness:
  "fst (gh_request
     (canned [\<lparr>status_code = 200, content = JsonBody (JArr [])\<rparr>])
     ''GET'' ''/repos/acme/widget/branches'' ''tok'' None None w0)
   = Inr (JArr [])
   \<and>
   fst (gh_request
     (canned [\<lparr>status_code = 204, content = TextBody []\<rparr>])
     ''PUT'' ''/repos/acme/widget/pulls/7/merge'' ''tok'' None None w0)
   = Inr (JObj (fmap_of_list [(''status'', JStr ''ok'')]))"
proof -
  let ?r1 = "\<lparr>status_code = 200, content = JsonBody (JArr [])\<rparr>"
  let ?r2 = "\<lparr>status_code = 204, content = TextBody []\<rparr>"
  have a1: "canned [?r1] (calls w0)
              (spec_call ''GET'' ''/repos/acme/widget/branches'' ''tok'' None None) = Some ?r1"
    by (rule canned_first)
  have a2: "canned [?r2] (calls w0)
              (spec_call ''PUT'' ''/repos/acme/widget/pulls/7/merge'' ''tok'' None None) = Some ?r2"
    by (rule canned_first)
  have b1: "status_code ?r1 < 400" by simp
  have b2: "status_code ?r2 < 400" by simp
  show ?thesis
    using gh_request_success [where up = "canned [?r1]" and w = w0 and resp = ?r1
            and v = "JArr []" and s = "[]", OF a1 b1]
          gh_request_success [where up = "canned [?r2]" and w = w0 and resp = ?r2
            and v = "JArr []" and s = "[]", OF a2 b2]
    by simp
qed

section \<open>Merging and reading contents: claims C7, C8 and C10\<close>


text \<open>The request on the wire for pull request 42 of \<^verbatim>\<open>acme/widget\<close>.\<close>

lemma merge_pr_example:
  "calls (snd (merge_pr up ''acme'' ''widget'' 42 (new_MergePrPayload None None None) ''tok'' w0)) =
     [\<lparr>http_method = ''PUT'',
       url = ''https://api.github.com/repos/acme/widget/pulls/42/merge'',
       headers = [(''Authorization'', ''Bearer tok''),
                  (''Accept'', ''application/vnd.github.v3+json'')],
       json = Some (JObj (fmap_of_list
                [(''commit_title'', JNull), (''commit_message'', JNull),
                 (''merge_method'', JStr ''merge'')])),
       params = None\<rparr>]"
  by (simp add: merge_pr_def new_MergePrPayload_def json_of_str_def gh_request_calls
        spec_call_def w0_def str_int_42)

text \<open>
  Claim C8: when the \<^verbatim>\<open>ref\<close> query parameter is not supplied, the one upstream \<^verbatim>\<open>GET\<close> of
  the contents handler carries no query parameters at all; when \<^verbatim>\<open>ref\<close> is supplied and
  not empty, it carries the query parameters \<^verbatim>\<open>{ref: <value>}\<close>.
\<close>

theorem get_contents_params:
  "calls (snd (get_contents up owner repo path None token w)) =
     calls w @
       [spec_call ''GET'' (''/repos/'' @ owner @ ''/'' @ repo @ ''/contents/'' @ path) token
          None None]
   \<and> (r \<noteq> [] \<longrightarrow>
        calls (snd (get_contents up owner repo path (Some r) token w)) =
          calls w @
            [spec_call ''GET'' (''/repos/'' @ owner @ ''/'' @ repo @ ''/contents/'' @ path) token
               None (Some [(''ref'', r)])])"
  by (simp add: get_contents_def gh_request_calls)

text \<open>Reading \<^verbatim>\<open>README.md\<close> of \<^verbatim>\<open>acme/widget\<close> at \<^verbatim>\<open>?ref=dev\<close>.\<close>

theorem get_contents_params_witness:
  "calls (snd (get_contents (canned []) ''acme'' ''widget'' ''README.md'' (Some ''dev'') ''tok'' w0)) =
     [spec_call ''GET'' ''/repos/acme/widget/contents/README.md'' ''tok'' None
        (Some [(''ref'', ''dev'')])]"
  using get_contents_params [of "canned []" "''acme''" "''widget''" "''README.md''" "''tok''" w0 "''dev''"]
  by (simp add: w0_def)

text \<open>
  Claim C10: an empty \<^verbatim>\<open>ref\<close> value (\<^verbatim>\<open>?ref=\<close>) is handled as an absent one: the handler
  does what it does without \<^verbatim>\<open>ref\<close>, and its upstream call carries no query parameters.
\<close>

theorem get_contents_empty_ref:
  "get_contents up owner repo path (Some []) token w = get_contents up owner repo path None token w
   \<and> calls (snd (get_contents up owner repo path (Some []) token w)) =
       calls w @
         [spec_call ''GET'' (''/repos/'' @ owner @ ''/'' @ repo @ ''/contents/'' @ path) token
            None None]"
  by (simp add: get_contents_def gh_request_calls)

section \<open>Branch creation: claims C1, C2 and C9\<close>

text \<open>
  Claim C1 says that for every response to the first upstream call whose body contains
  \<^verbatim>\<open>object.sha = S\<close> the handler makes exactly one second call, the \<^verbatim>\<open>POST\<close> with
  \<^verbatim>\<open>{ref: "refs/heads/<new_branch>", sha: S}\<close>, and returns its result. Two responses with
  such a body get no second call: a 200 whose \<^verbatim>\<open>object.sha\<close> is the empty string (the
  handler raises the 500 of the unresolved SHA), and a 404 whose body carries a SHA (the
  handler raises the upstream's 404).
\<close>

theorem create_branch_sha_counterexample:
  "object_sha (ref_body (JStr [])) = Some (JStr []) \<and>
   fst (create_branch
          (canned [\<lparr>status_code = 200, content = JsonBody (ref_body (JStr []))\<rparr>,
                   \<lparr>status_code = 201, content = JsonBody (JObj fmempty)\<rparr>])
          ''acme'' ''widget'' (new_CreateBranchPayload ''feature-x'' None) ''tok'' w0)
     = Inl no_base_sha \<and>
   calls (snd (create_branch
          (canned [\<lparr>status_code = 200, content = JsonBody (ref_body (JStr []))\<rparr>,
                   \<lparr>status_code = 201, content = JsonBody (JObj fmempty)\<rparr>])
          ''acme'' ''widget'' (new_CreateBranchPayload ''feature-x'' None) ''tok'' w0))
     = [get_ref_call ''acme'' ''widget'' ''main'' ''tok''] \<and>
   object_sha (ref_body (JStr ''abc123'')) = Some (JStr ''abc123'') \<and>
   fst (create_branch
          (canned [\<lparr>status_code = 404, content = JsonBody (ref_body (JStr ''abc123''))\<rparr>,
                   \<lparr>status_code = 201, content = JsonBody (JObj fmempty)\<rparr>])
          ''acme'' ''widget'' (new_CreateBranchPayload ''feature-x'' None) ''tok'' w0)
     = Inl (HTTPException 404 (ref_body (JStr ''abc123''))) \<and>
   calls (snd (create_branch
          (canned [\<lparr>status_code = 404, content = JsonBody (ref_body (JStr ''abc123''))\<rparr>,
                   \<lparr>status_code = 201, content = JsonBody (JObj fmempty)\<rparr>])
          ''acme'' ''widget'' (new_CreateBranchPayload ''feature-x'' None) ''tok'' w0))
     = [get_ref_call ''acme'' ''widget'' ''main'' ''tok'']"
proof -
  let ?p = "new_CreateBranchPayload ''feature-x'' None"
  let ?r2 = "\<lparr>status_code = 201, content = JsonBody (JObj fmempty)\<rparr>"
  let ?e = "\<lparr>status_code = 200, content = JsonBody (ref_body (JStr []))\<rparr>"
  let ?n = "\<lparr>status_code = 404, content = JsonBody (ref_body (JStr ''abc123''))\<rparr>"
  have fmt: "format_str (base_branch ?p) = ''main''"
    by (simp add: new_CreateBranchPayload_def format_str_def)
  have ue: "canned [?e, ?r2] (calls w0) (get_ref_call ''acme'' ''widget'' (format_str (base_branch ?p)) ''tok'')
              = Some ?e"
    by (rule canned_first)
  have un: "canned [?n, ?r2] (calls w0) (get_ref_call ''acme'' ''widget'' (format_str (base_branch ?p)) ''tok'')
              = Some ?n"
    by (rule canned_first)
  have s1: "fst (gh_request (canned [?e, ?r2]) ''GET''
                  (heads_ref_path ''acme'' ''widget'' (format_str (base_branch ?p))) ''tok'' None None w0)
              = Inr (ref_body (JStr []))"
    using ue by (simp add: gh_request_sees get_ref_call_def)
  have d1: "dict_get (ref_body (JStr [])) ''object'' (JObj fmempty)
              = Inr (JObj (fmap_of_list [(''sha'', JStr [])]))"
    by (simp add: ref_body_def)
  have d2: "dict_get (JObj (fmap_of_list [(''sha'', JStr [])])) ''sha'' JNull = Inr (JStr [])"
    by simp
  have empty: "fst (create_branch (canned [?e, ?r2]) ''acme'' ''widget'' ?p ''tok'' w0) = Inl no_base_sha
      \<and> calls (snd (create_branch (canned [?e, ?r2]) ''acme'' ''widget'' ?p ''tok'' w0))
          = calls w0 @ [get_ref_call ''acme'' ''widget'' (format_str (base_branch ?p)) ''tok'']"
    by (rule create_branch_without_sha [OF s1 d1 d2]) simp
  have notfound: "fst (create_branch (canned [?n, ?r2]) ''acme'' ''widget'' ?p ''tok'' w0)
          = Inl (HTTPException 404 (ref_body (JStr ''abc123'')))"
    using create_branch_upstream_error(1)
            [where up = "canned [?n, ?r2]" and r = ?n, OF un _ _ ref_body_not_null]
    by simp
  have notfound_calls: "calls (snd (create_branch (canned [?n, ?r2]) ''acme'' ''widget'' ?p ''tok'' w0))
          = calls w0 @ [get_ref_call ''acme'' ''widget'' (format_str (base_branch ?p)) ''tok'']"
    using create_branch_upstream_error(2)
            [where up = "canned [?n, ?r2]" and r = ?n, OF un _ _ ref_body_not_null]
    by simp
  show ?thesis
    using empty notfound notfound_calls
    by (simp add: fmt object_sha_ref_body w0_def)
qed

text \<open>
  Claim C1, amended: for every response to the first upstream call that has a status
  code below 400 and whose body contains \<^verbatim>\<open>object.sha = S\<close> with \<open>S\<close> true in Python's sense
  (a non-empty string, in particular), the handler makes exactly one second upstream
  call, the \<^verbatim>\<open>POST /repos/{owner}/{repo}/git/refs\<close> with the JSON body
  \<^verbatim>\<open>{ref: "refs/heads/<new_branch>", sha: S}\<close>, and returns that call's result as its own.
\<close>

theorem create_branch_posts_resolved_sha:
  assumes "up (calls w) (get_ref_call owner repo (format_str (base_branch payload)) token) = Some r"
    and "status_code r < 400"
    and "content r = JsonBody b"
    and "object_sha b = Some S"
    and "truthy S"
  shows "calls (snd (create_branch up owner repo payload token w)) =
           calls w @ [get_ref_call owner repo (format_str (base_branch payload)) token,
                      post_ref_call owner repo (new_branch payload) S token]
         \<and> create_branch up owner repo payload token w =
             gh_request up ''POST'' (git_refs_path owner repo) token
               (Some (new_ref_body (new_branch payload) S)) None
               (snd (gh_request up ''GET''
                  (heads_ref_path owner repo (format_str (base_branch payload))) token None None w))"
proof -
  have step1: "fst (gh_request up ''GET''
      (heads_ref_path owner repo (format_str (base_branch payload))) token None None w) = Inr b"
    using assms(1-3) by (simp add: gh_request_sees get_ref_call_def)
  obtain ob where ob: "dict_get b ''object'' (JObj fmempty) = Inr ob" "dict_get ob ''sha'' JNull = Inr S"
    using sha_of_body_present [OF assms(4)] by blast
  have eq: "create_branch up owner repo payload token w =
             gh_request up ''POST'' (git_refs_path owner repo) token
               (Some (new_ref_body (new_branch payload) S)) None
               (snd (gh_request up ''GET''
                  (heads_ref_path owner repo (format_str (base_branch payload))) token None None w))"
    using create_branch_step1_returns [OF step1] ob assms(5) by simp
  show ?thesis
    by (simp only: eq gh_request_calls get_ref_call_def post_ref_call_def) simp
qed

text \<open>
  The scenario of the specification: \<^verbatim>\<open>POST /repos/acme/widget/branches\<close> with
  \<^verbatim>\<open>{"new_branch": "feature-x", "base_branch": "main"}\<close>; the upstream answers the \<^verbatim>\<open>GET\<close>
  with \<^verbatim>\<open>{object: {sha: "abc123"}}\<close> and the \<^verbatim>\<open>POST\<close> with a 201 and the new reference.
\<close>

theorem create_branch_posts_resolved_sha_witness:
  "calls (snd (create_branch
          (canned [\<lparr>status_code = 200, content = JsonBody (ref_body (JStr ''abc123''))\<rparr>,
                   \<lparr>status_code = 201, content = JsonBody (new_ref_body ''feature-x'' (JStr ''abc123''))\<rparr>])
          ''acme'' ''widget'' (new_CreateBranchPayload ''feature-x'' (Some (Some ''main''))) ''tok'' w0))
     = [get_ref_call ''acme'' ''widget'' ''main'' ''tok'',
        post_ref_call ''acme'' ''widget'' ''feature-x'' (JStr ''abc123'') ''tok''] \<and>
   fst (create_branch
          (canned [\<lparr>status_code = 200, content = JsonBody (ref_body (JStr ''abc123''))\<rparr>,
                   \<lparr>status_code = 201, content = JsonBody (new_ref_body ''feature-x'' (JStr ''abc123''))\<rparr>])
          ''acme'' ''widget'' (new_CreateBranchPayload ''feature-x'' (Some (Some ''main''))) ''tok'' w0)
     = Inr (new_ref_body ''feature-x'' (JStr ''abc123''))"
proof -
  let ?p = "new_CreateBranchPayload ''feature-x'' (Some (Some ''main''))"
  let ?r1 = "\<lparr>status_code = 200, content = JsonBody (ref_body (JStr ''abc123''))\<rparr>"
  let ?r2 = "\<lparr>status_code = 201, content = JsonBody (new_ref_body ''feature-x'' (JStr ''abc123''))\<rparr>"
  let ?up = "canned [?r1, ?r2]"
  let ?w1 = "snd (gh_request ?up ''GET''
               (heads_ref_path ''acme'' ''widget'' (format_str (base_branch ?p))) ''tok'' None None w0)"
  have fmt: "format_str (base_branch ?p) = ''main''" and nb: "new_branch ?p = ''feature-x''"
    by (simp_all add: new_CreateBranchPayload_def format_str_def)
  have h1: "?up (calls w0) (get_ref_call ''acme'' ''widget'' (format_str (base_branch ?p)) ''tok'') = Some ?r1"
    by (rule canned_first)
  have h2: "status_code ?r1 < 400" by simp
  have h3: "content ?r1 = JsonBody (ref_body (JStr ''abc123''))" by simp
  have h4: "object_sha (ref_body (JStr ''abc123'')) = Some (JStr ''abc123'')"
    by (rule object_sha_ref_body)
  have h5: "truthy (JStr ''abc123'')" by simp
  note inst = create_branch_posts_resolved_sha [where up = ?up and w = w0 and r = ?r1, OF h1 h2 h3 h4 h5]
  have second: "?up (calls ?w1)
      (spec_call ''POST'' (git_refs_path ''acme'' ''widget'') ''tok''
         (Some (new_ref_body (new_branch ?p) (JStr ''abc123''))) None) = Some ?r2"
    by (simp add: gh_request_calls canned_def w0_def)
  have res: "fst (gh_request ?up ''POST'' (git_refs_path ''acme'' ''widget'') ''tok''
               (Some (new_ref_body (new_branch ?p) (JStr ''abc123''))) None ?w1)
             = Inr (new_ref_body ''feature-x'' (JStr ''abc123''))"
    by (simp add: gh_request_sees [where up = ?up and w = ?w1 and resp = ?r2, OF second])
  from inst have c: "calls (snd (create_branch ?up ''acme'' ''widget'' ?p ''tok'' w0)) =
           calls w0 @ [get_ref_call ''acme'' ''widget'' (format_str (base_branch ?p)) ''tok'',
                      post_ref_call ''acme'' ''widget'' (new_branch ?p) (JStr ''abc123'') ''tok'']"
    by (rule conjunct1)
  from inst have e: "create_branch ?up ''acme'' ''widget'' ?p ''tok'' w0 =
             gh_request ?up ''POST'' (git_refs_path ''acme'' ''widget'') ''tok''
               (Some (new_ref_body (new_branch ?p) (JStr ''abc123''))) None ?w1"
    by (rule conjunct2)
  show ?thesis
  proof (intro conjI)
    show "calls (snd (create_branch ?up ''acme'' ''widget'' ?p ''tok'' w0))
            = [get_ref_call ''acme'' ''widget'' ''main'' ''tok'',
               post_ref_call ''acme'' ''widget'' ''feature-x'' (JStr ''abc123'') ''tok'']"
      using c by (simp add: fmt nb w0_def)
    show "fst (create_branch ?up ''acme'' ''widget'' ?p ''tok'' w0)
            = Inr (new_ref_body ''feature-x'' (JStr ''abc123''))"
      by (simp only: e res)
  qed
qed

text \<open>
  Claim C2 says that for every first-step response body that lacks \<^verbatim>\<open>object.sha\<close> the
  handler makes no second call and fails with status 500 and the message
  \<^verbatim>\<open>Could not resolve base branch SHA\<close>. Two responses whose body lacks \<^verbatim>\<open>object.sha\<close> end
  otherwise: the 404 \<^verbatim>\<open>{"message": "Not Found"}\<close> of a base branch that does not exist
  ends in the upstream's 404, and a 200 with the body \<^verbatim>\<open>{"object": null}\<close> ends in the
  \<open>AttributeError\<close> of \<^verbatim>\<open>None.get\<close>, which carries no such message.
\<close>

theorem create_branch_no_sha_counterexample:
  "object_sha (JObj (fmap_of_list [(''message'', JStr ''Not Found'')])) = None \<and>
   fst (create_branch
          (canned [\<lparr>status_code = 404,
                    content = JsonBody (JObj (fmap_of_list [(''message'', JStr ''Not Found'')]))\<rparr>])
          ''acme'' ''widget'' (new_CreateBranchPayload ''feature-x'' None) ''tok'' w0)
     = Inl (HTTPException 404 (JObj (fmap_of_list [(''message'', JStr ''Not Found'')]))) \<and>
   object_sha (JObj (fmap_of_list [(''object'', JNull)])) = None \<and>
   fst (create_branch
          (canned [\<lparr>status_code = 200,
                    content = JsonBody (JObj (fmap_of_list [(''object'', JNull)]))\<rparr>])
          ''acme'' ''widget'' (new_CreateBranchPayload ''feature-x'' None) ''tok'' w0)
     = Inl AttributeError"
proof -
  let ?p = "new_CreateBranchPayload ''feature-x'' None"
  let ?n = "\<lparr>status_code = 404,
             content = JsonBody (JObj (fmap_of_list [(''message'', JStr ''Not Found'')]))\<rparr>"
  let ?u = "\<lparr>status_code = 200,
             content = JsonBody (JObj (fmap_of_list [(''object'', JNull)]))\<rparr>"
  have un: "canned [?n] (calls w0) (get_ref_call ''acme'' ''widget'' (format_str (base_branch ?p)) ''tok'')
              = Some ?n"
    by (rule canned_first)
  have uu: "canned [?u] (calls w0) (get_ref_call ''acme'' ''widget'' (format_str (base_branch ?p)) ''tok'')
              = Some ?u"
    by (rule canned_first)
  have notfound: "fst (create_branch (canned [?n]) ''acme'' ''widget'' ?p ''tok'' w0)
          = Inl (HTTPException 404 (JObj (fmap_of_list [(''message'', JStr ''Not Found'')])))"
    using create_branch_upstream_error(1)
            [where up = "canned [?n]" and r = ?n
               and d = "JObj (fmap_of_list [(''message'', JStr ''Not Found'')])", OF un]
    by simp
  have unshaped: "\<not> ref_shaped (JObj (fmap_of_list [(''object'', JNull)]))"
    by (simp add: ref_shaped_def jfield_def)
  have null: "fst (create_branch (canned [?u]) ''acme'' ''widget'' ?p ''tok'' w0) = Inl AttributeError"
    by (rule create_branch_unshaped_body(1) [where up = "canned [?u]" and r = ?u, OF uu _ _ unshaped])
       simp_all
  show ?thesis
    using notfound null by (simp add: object_sha_def jfield_def)
qed

text \<open>
  Claim C2, amended: for every first-step response with a status code below 400 whose
  body the decoder rejects with its decode error (a \<^verbatim>\<open>ValueError\<close>), or whose body decodes
  to a JSON object in which \<^verbatim>\<open>object\<close> is missing or is a JSON object without \<^verbatim>\<open>sha\<close>, the
  handler makes no second upstream call and fails with status 500 and the message
  \<^verbatim>\<open>Could not resolve base branch SHA\<close>; and whenever the handler makes more than the first
  call, the first response had a status code below 400 and a body whose \<^verbatim>\<open>object.sha\<close> is
  true in Python's sense.
\<close>

theorem create_branch_second_call_guard:
  "(up (calls w) (get_ref_call owner repo (format_str (base_branch payload)) token) = Some r
      \<and> status_code r < 400
      \<and> ((\<exists>s. content r = TextBody s)
          \<or> (\<exists>b. content r = JsonBody b \<and> ref_shaped b \<and> object_sha b = None))
    \<longrightarrow> fst (create_branch up owner repo payload token w) = Inl no_base_sha
        \<and> calls (snd (create_branch up owner repo payload token w)) =
            calls w @ [get_ref_call owner repo (format_str (base_branch payload)) token])
   \<and>
   (calls (snd (create_branch up owner repo payload token w)) \<noteq>
      calls w @ [get_ref_call owner repo (format_str (base_branch payload)) token]
    \<longrightarrow> (\<exists>r' b' S'.
           up (calls w) (get_ref_call owner repo (format_str (base_branch payload)) token) = Some r'
           \<and> status_code r' < 400 \<and> content r' = JsonBody b' \<and> object_sha b' = Some S' \<and> truthy S'))"
proof (intro conjI impI)
  let ?get = "get_ref_call owner repo (format_str (base_branch payload)) token"
  let ?step1 = "gh_request up ''GET''
      (heads_ref_path owner repo (format_str (base_branch payload))) token None None w"
  assume a: "up (calls w) ?get = Some r \<and> status_code r < 400
      \<and> ((\<exists>s. content r = TextBody s)
          \<or> (\<exists>b. content r = JsonBody b \<and> ref_shaped b \<and> object_sha b = None))"
  then have up: "up (calls w) ?get = Some r" and ok: "status_code r < 400"
    by simp_all
  from a consider (nojson) s where "content r = TextBody s"
    | (json) b where "content r = JsonBody b" "ref_shaped b" "object_sha b = None"
    by auto
  then have "fst (create_branch up owner repo payload token w) = Inl no_base_sha
        \<and> calls (snd (create_branch up owner repo payload token w)) = calls w @ [?get]"
  proof cases
    case nojson
    have s1: "fst ?step1 = Inr (JObj (fmap_of_list [(''status'', JStr ''ok'')]))"
      using up ok nojson by (simp add: gh_request_sees get_ref_call_def)
    show ?thesis
      by (rule create_branch_without_sha [OF s1, where ob = "JObj fmempty" and S = JNull]) simp_all
  next
    case json
    have s1: "fst ?step1 = Inr b"
      using up ok json(1) by (simp add: gh_request_sees get_ref_call_def)
    obtain ob where "dict_get b ''object'' (JObj fmempty) = Inr ob" "dict_get ob ''sha'' JNull = Inr JNull"
      using sha_of_body_absent [OF json(2,3)] by blast
    then show ?thesis
      by (intro create_branch_without_sha [OF s1, where ob = ob and S = JNull]) simp_all
  qed
  then show "fst (create_branch up owner repo payload token w) = Inl no_base_sha"
    and "calls (snd (create_branch up owner repo payload token w)) = calls w @ [?get]"
    by simp_all
next
  let ?get = "get_ref_call owner repo (format_str (base_branch payload)) token"
  let ?step1 = "gh_request up ''GET''
      (heads_ref_path owner repo (format_str (base_branch payload))) token None None w"
  assume more: "calls (snd (create_branch up owner repo payload token w)) \<noteq> calls w @ [?get]"
  show "\<exists>r' b' S'. up (calls w) ?get = Some r'
           \<and> status_code r' < 400 \<and> content r' = JsonBody b' \<and> object_sha b' = Some S' \<and> truthy S'"
  proof (cases "fst ?step1")
    case (Inl e)
    have "calls (snd (create_branch up owner repo payload token w)) = calls w @ [?get]"
      by (simp add: create_branch_step1_fails [OF Inl] gh_request_calls get_ref_call_def)
    with more show ?thesis by simp
  next
    case (Inr base_ref)
    note cb = create_branch_step1_returns [OF Inr]
    obtain r' where up: "up (calls w) ?get = Some r'"
      using Inr by (cases "up (calls w) ?get") (simp_all add: gh_request_raises get_ref_call_def)
    have ok: "status_code r' < 400"
      using Inr up by (simp add: gh_request_sees get_ref_call_def split: if_splits)
    have body: "content r' = JsonBody base_ref
                \<or> base_ref = JObj (fmap_of_list [(''status'', JStr ''ok'')])"
      using Inr up ok by (cases "content r'") (simp_all add: gh_request_sees get_ref_call_def)
    obtain ob where ob: "dict_get base_ref ''object'' (JObj fmempty) = Inr ob"
      using more by (cases "dict_get base_ref ''object'' (JObj fmempty)")
        (simp_all add: cb gh_request_calls get_ref_call_def)
    obtain S' where S': "dict_get ob ''sha'' JNull = Inr S'"
      using more ob by (cases "dict_get ob ''sha'' JNull")
        (simp_all add: cb gh_request_calls get_ref_call_def)
    have tr: "truthy S'"
      using more ob S' by (cases "truthy S'") (simp_all add: cb gh_request_calls get_ref_call_def)
    have sha: "object_sha base_ref = Some S'"
      by (rule sha_of_body_truthy [OF ob S' tr])
    have "base_ref \<noteq> JObj (fmap_of_list [(''status'', JStr ''ok'')])"
      using sha by (auto simp add: object_sha_def jfield_def)
    with body have "content r' = JsonBody base_ref" by simp
    with up ok sha tr show ?thesis by blast
  qed
qed

text \<open>
  Both parts at work: a 200 whose body \<^verbatim>\<open>{"ref": "refs/heads/main"}\<close> has no \<^verbatim>\<open>object\<close>
  ends in the 500 after the \<^verbatim>\<open>GET\<close> alone; and the run that answers the \<^verbatim>\<open>GET\<close> with
  \<^verbatim>\<open>{object: {sha: "abc123"}}\<close> makes a second call, so its first response is a success
  with a true SHA.
\<close>

theorem create_branch_second_call_guard_witness:
  "fst (create_branch
          (canned [\<lparr>status_code = 200,
                    content = JsonBody (JObj (fmap_of_list [(''ref'', JStr ''refs/heads/main'')]))\<rparr>])
          ''acme'' ''widget'' (new_CreateBranchPayload ''feature-x'' None) ''tok'' w0)
     = Inl no_base_sha \<and>
   calls (snd (create_branch
          (canned [\<lparr>status_code = 200,
                    content = JsonBody (JObj (fmap_of_list [(''ref'', JStr ''refs/heads/main'')]))\<rparr>])
          ''acme'' ''widget'' (new_CreateBranchPayload ''feature-x'' None) ''tok'' w0))
     = [get_ref_call ''acme'' ''widget'' ''main'' ''tok''] \<and>
   (\<exists>r' b' S'.
      canned [\<lparr>status_code = 200, content = JsonBody (ref_body (JStr ''abc123''))\<rparr>,
              \<lparr>status_code = 201, content = JsonBody (JObj fmempty)\<rparr>]
        (calls w0) (get_ref_call ''acme'' ''widget'' ''main'' ''tok'') = Some r'
      \<and> status_code r' < 400 \<and> content r' = JsonBody b' \<and> object_sha b' = Some S' \<and> truthy S')"
proof -
  let ?p = "new_CreateBranchPayload ''feature-x'' None"
  let ?b = "JObj (fmap_of_list [(''ref'', JStr ''refs/heads/main'')])"
  let ?r = "\<lparr>status_code = 200, content = JsonBody ?b\<rparr>"
  let ?r1 = "\<lparr>status_code = 200, content = JsonBody (ref_body (JStr ''abc123''))\<rparr>"
  let ?r2 = "\<lparr>status_code = 201, content = JsonBody (JObj fmempty)\<rparr>"
  let ?get = "get_ref_call ''acme'' ''widget'' (format_str (base_branch ?p)) ''tok''"
  have fmt: "format_str (base_branch ?p) = ''main''"
    by (simp add: new_CreateBranchPayload_def format_str_def)
  have hyp1: "canned [?r] (calls w0) ?get = Some ?r
      \<and> status_code ?r < 400
      \<and> ((\<exists>s. content ?r = TextBody s)
          \<or> (\<exists>b. content ?r = JsonBody b \<and> ref_shaped b \<and> object_sha b = None))"
    by (simp add: canned_first ref_shaped_def object_sha_def jfield_def)
  have first: "fst (create_branch (canned [?r]) ''acme'' ''widget'' ?p ''tok'' w0) = Inl no_base_sha
        \<and> calls (snd (create_branch (canned [?r]) ''acme'' ''widget'' ?p ''tok'' w0)) = calls w0 @ [?get]"
    using create_branch_second_call_guard
            [where up = "canned [?r]" and w = w0 and r = ?r and owner = "''acme''"
               and repo = "''widget''" and payload = ?p and token = "''tok''"]
          hyp1
    by blast
  have u1: "canned [?r1, ?r2] (calls w0) ?get = Some ?r1"
    by (rule canned_first)
  have run: "calls (snd (create_branch (canned [?r1, ?r2]) ''acme'' ''widget'' ?p ''tok'' w0)) =
           calls w0 @ [?get, post_ref_call ''acme'' ''widget'' (new_branch ?p) (JStr ''abc123'') ''tok'']"
  proof -
    have s1: "fst (gh_request (canned [?r1, ?r2]) ''GET''
                (heads_ref_path ''acme'' ''widget'' (format_str (base_branch ?p))) ''tok'' None None w0)
              = Inr (ref_body (JStr ''abc123''))"
      using u1 by (simp add: gh_request_sees get_ref_call_def)
    have d1: "dict_get (ref_body (JStr ''abc123'')) ''object'' (JObj fmempty)
                = Inr (JObj (fmap_of_list [(''sha'', JStr ''abc123'')]))"
      by (simp add: ref_body_def)
    have d2: "dict_get (JObj (fmap_of_list [(''sha'', JStr ''abc123'')])) ''sha'' JNull
                = Inr (JStr ''abc123'')"
      by simp
    show ?thesis
      by (simp add: create_branch_step1_returns [OF s1] d1 d2 gh_request_calls
            get_ref_call_def post_ref_call_def)
  qed
  have hyp2: "calls (snd (create_branch (canned [?r1, ?r2]) ''acme'' ''widget'' ?p ''tok'' w0))
                \<noteq> calls w0 @ [?get]"
    by (simp add: run)
  have second: "\<exists>r' b' S'. canned [?r1, ?r2] (calls w0) ?get = Some r'
      \<and> status_code r' < 400 \<and> content r' = JsonBody b' \<and> object_sha b' = Some S' \<and> truthy S'"
    using create_branch_second_call_guard
            [where up = "canned [?r1, ?r2]" and w = w0 and owner = "''acme''"
               and repo = "''widget''" and payload = ?p and token = "''tok''"]
          hyp2
    by blast
  show ?thesis
    using first second by (simp add: fmt w0_def)
qed

text \<open>
  Claim C9 says that for every first-step response body in which \<^verbatim>\<open>object.sha\<close> exists
  but is the empty string the handler fails with the 500
  \<^verbatim>\<open>Could not resolve base branch SHA\<close>. A 404 with the body \<^verbatim>\<open>{"object": {"sha": ""}}\<close> ends
  otherwise: the first step raises the upstream's 404 before the body is looked at.
\<close>

theorem create_branch_falsy_sha_counterexample:
  "object_sha (ref_body (JStr [])) = Some (JStr []) \<and>
   fst (create_branch
          (canned [\<lparr>status_code = 404, content = JsonBody (ref_body (JStr []))\<rparr>])
          ''acme'' ''widget'' (new_CreateBranchPayload ''feature-x'' None) ''tok'' w0)
     = Inl (HTTPException 404 (ref_body (JStr [])))"
proof -
  let ?p = "new_CreateBranchPayload ''feature-x'' None"
  let ?n = "\<lparr>status_code = 404, content = JsonBody (ref_body (JStr []))\<rparr>"
  have un: "canned [?n] (calls w0) (get_ref_call ''acme'' ''widget'' (format_str (base_branch ?p)) ''tok'')
              = Some ?n"
    by (rule canned_first)
  have "fst (create_branch (canned [?n]) ''acme'' ''widget'' ?p ''tok'' w0)
          = Inl (HTTPException 404 (ref_body (JStr [])))"
    using create_branch_upstream_error(1)
            [where up = "canned [?n]" and r = ?n, OF un _ _ ref_body_not_null]
    by simp
  then show ?thesis
    by (simp add: object_sha_ref_body)
qed

text \<open>
  Claim C9, amended: a SHA that is present but false in Python's sense is handled as an
  absent one. For every first-step response with a status code below 400 whose body has
  an \<^verbatim>\<open>object.sha\<close> that is the empty string or another false value, or an \<^verbatim>\<open>object\<close> that is
  present but empty, the handler fails with the 500 \<^verbatim>\<open>Could not resolve base branch SHA\<close>
  and makes no second upstream call.
\<close>

theorem create_branch_falsy_sha:
  assumes "up (calls w) (get_ref_call owner repo (format_str (base_branch payload)) token) = Some r"
    and "status_code r < 400"
    and "content r = JsonBody b"
    and "(\<exists>S. object_sha b = Some S \<and> \<not> truthy S) \<or> jfield b ''object'' = Some (JObj fmempty)"
  shows "fst (create_branch up owner repo payload token w) = Inl no_base_sha
         \<and> calls (snd (create_branch up owner repo payload token w)) =
             calls w @ [get_ref_call owner repo (format_str (base_branch payload)) token]"
proof -
  have s1: "fst (gh_request up ''GET''
      (heads_ref_path owner repo (format_str (base_branch payload))) token None None w) = Inr b"
    using assms(1-3) by (simp add: gh_request_sees get_ref_call_def)
  from assms(4) show ?thesis
  proof
    assume "\<exists>S. object_sha b = Some S \<and> \<not> truthy S"
    then obtain S where S: "object_sha b = Some S" "\<not> truthy S" by blast
    obtain ob where "dict_get b ''object'' (JObj fmempty) = Inr ob" "dict_get ob ''sha'' JNull = Inr S"
      using sha_of_body_present [OF S(1)] by blast
    then show ?thesis
      using S(2) by (intro create_branch_without_sha [OF s1, where ob = ob and S = S]) simp_all
  next
    assume "jfield b ''object'' = Some (JObj fmempty)"
    from sha_of_empty_object [OF this] show ?thesis
      by (intro create_branch_without_sha [OF s1, where ob = "JObj fmempty" and S = JNull]) simp_all
  qed
qed

text \<open>
  The two bodies the claim names, \<^verbatim>\<open>{"object": {"sha": ""}}\<close> and \<^verbatim>\<open>{"object": {}}\<close>, each in a
  200 response.
\<close>

theorem create_branch_falsy_sha_witness:
  "fst (create_branch
          (canned [\<lparr>status_code = 200, content = JsonBody (ref_body (JStr []))\<rparr>,
                   \<lparr>status_code = 201, content = JsonBody (JObj fmempty)\<rparr>])
          ''acme'' ''widget'' (new_CreateBranchPayload ''feature-x'' None) ''tok'' w0)
     = Inl (HTTPException 500 (JStr ''Could not resolve base branch SHA'')) \<and>
   calls (snd (create_branch
          (canned [\<lparr>status_code = 200, content = JsonBody (ref_body (JStr []))\<rparr>,
                   \<lparr>status_code = 201, content = JsonBody (JObj fmempty)\<rparr>])
          ''acme'' ''widget'' (new_CreateBranchPayload ''feature-x'' None) ''tok'' w0))
     = [get_ref_call ''acme'' ''widget'' ''main'' ''tok''] \<and>
   fst (create_branch
          (canned [\<lparr>status_code = 200,
                    content = JsonBody (JObj (fmap_of_list [(''object'', JObj fmempty)]))\<rparr>,
                   \<lparr>status_code = 201, content = JsonBody (JObj fmempty)\<rparr>])
          ''acme'' ''widget'' (new_CreateBranchPayload ''feature-x'' None) ''tok'' w0)
     = Inl (HTTPException 500 (JStr ''Could not resolve base branch SHA'')) \<and>
   calls (snd (create_branch
          (canned [\<lparr>status_code = 200,
                    content = JsonBody (JObj (fmap_of_list [(''object'', JObj fmempty)]))\<rparr>,
                   \<lparr>status_code = 201, content = JsonBody (JObj fmempty)\<rparr>])
          ''acme'' ''widget'' (new_CreateBranchPayload ''feature-x'' None) ''tok'' w0))
     = [get_ref_call ''acme'' ''widget'' ''main'' ''tok'']"
proof -
  let ?p = "new_CreateBranchPayload ''feature-x'' None"
  let ?r2 = "\<lparr>status_code = 201, content = JsonBody (JObj fmempty)\<rparr>"
  let ?b1 = "ref_body (JStr [])"
  let ?b2 = "JObj (fmap_of_list [(''object'', JObj fmempty)])"
  let ?e = "\<lparr>status_code = 200, content = JsonBody ?b1\<rparr>"
  let ?o = "\<lparr>status_code = 200, content = JsonBody ?b2\<rparr>"
  let ?get = "get_ref_call ''acme'' ''widget'' (format_str (base_branch ?p)) ''tok''"
  have fmt: "format_str (base_branch ?p) = ''main''"
    by (simp add: new_CreateBranchPayload_def format_str_def)
  have e1: "canned [?e, ?r2] (calls w0) ?get = Some ?e"
    by (rule canned_first)
  have o1: "canned [?o, ?r2] (calls w0) ?get = Some ?o"
    by (rule canned_first)
  have e4: "(\<exists>S. object_sha ?b1 = Some S \<and> \<not> truthy S) \<or> jfield ?b1 ''object'' = Some (JObj fmempty)"
    by (simp add: object_sha_ref_body)
  have o4: "(\<exists>S. object_sha ?b2 = Some S \<and> \<not> truthy S) \<or> jfield ?b2 ''object'' = Some (JObj fmempty)"
    by (simp add: jfield_def)
  have a: "fst (create_branch (canned [?e, ?r2]) ''acme'' ''widget'' ?p ''tok'' w0) = Inl no_base_sha
         \<and> calls (snd (create_branch (canned [?e, ?r2]) ''acme'' ''widget'' ?p ''tok'' w0)) =
             calls w0 @ [?get]"
    by (rule create_branch_falsy_sha [where up = "canned [?e, ?r2]" and r = ?e and b = ?b1, OF e1 _ _ e4])
       simp_all
  have b: "fst (create_branch (canned [?o, ?r2]) ''acme'' ''widget'' ?p ''tok'' w0) = Inl no_base_sha
         \<and> calls (snd (create_branch (canned [?o, ?r2]) ''acme'' ''widget'' ?p ''tok'' w0)) =
             calls w0 @ [?get]"
    by (rule create_branch_falsy_sha [where up = "canned [?o, ?r2]" and r = ?o and b = ?b2, OF o1 _ _ o4])
       simp_all
  show ?thesis
    using a b by (simp add: fmt w0_def no_base_sha_def)
qed

end
